theory Spec2Isabelle
  imports Main "HOL-Library.Sublist"
begin

section \<open>Data model (types)\<close>

text \<open>
  \<^verbatim>\<open>LessonType = 'Historic' | 'Upcoming' | 'Available'\<close>,
  \<^verbatim>\<open>LessonStatus = 'Completed' | 'Confirmed' | 'Available'\<close> and
  \<^verbatim>\<open>LessonFilterType = LessonType | 'Today'\<close>.
  The status literal \<^verbatim>\<open>'Available'\<close> is written \<open>Available_status\<close>, the type
  literal keeps its name.
\<close>

datatype LessonType = Historic | Upcoming | Available

datatype LessonStatus = Completed | Confirmed | Available_status

datatype LessonFilterType = Type LessonType | Today

text \<open>
  \<^verbatim>\<open>interface Lesson\<close>. The field \<^verbatim>\<open>id\<close> is written \<open>id_lesson\<close>
  (\<open>id\<close> is the identity function of HOL); \<^verbatim>\<open>tutor: string | null\<close> is an option.
\<close>

record Lesson =
  id_lesson :: string
  date :: string
  type :: LessonType
  subject :: string
  students :: "string list"
  tutor :: "string option"
  status :: LessonStatus

record User =
  id_user :: string
  name :: string
  email :: string

text \<open>
  What the claim service answers: the store treats it as a possibly partial lesson
  (\<^verbatim>\<open>API may return partial data\<close>). A field that is absent is \<open>None\<close>. The
  tutor of a lesson may be \<^verbatim>\<open>null\<close>, so a tutor that is present is itself an
  option: \<open>Some None\<close> is \<^verbatim>\<open>tutor: null\<close>.
\<close>

record PartialLesson =
  p_id :: "string option"
  p_date :: "string option"
  p_type :: "LessonType option"
  p_subject :: "string option"
  p_students :: "string list option"
  p_tutor :: "string option option"
  p_status :: "LessonStatus option"

text \<open>
  A thrown value: an \<^verbatim>\<open>Error\<close> with its message, or anything else
  (\<^verbatim>\<open>error instanceof Error\<close> is false).
\<close>

datatype thrown = Error string | NonError

section \<open>The lesson store\<close>

record LessonState =
  lessons :: "Lesson list"
  loading :: bool
  error :: "string option"

text \<open>
  The store together with the log of the requests sent to the claim service, so that
  "no call is issued" is a statement about the log.
\<close>

record world =
  store :: LessonState
  claimCalls :: "string list"

definition initialState :: LessonState where
  "initialState = \<lparr>lessons = [], loading = False, error = None\<rparr>"

subsection \<open>fetchLessonsData\<close>

text \<open>
  The first \<^verbatim>\<open>set\<close>, before the request is awaited, and the second one, when
  the awaited \<^verbatim>\<open>fetchLessons()\<close> has resolved (\<open>Inr data\<close>) or rejected
  (\<open>Inl e\<close>). \<^verbatim>\<open>set\<close> merges the given fields into the state.
\<close>

definition fetch_begin :: "LessonState \<Rightarrow> LessonState" where
  "fetch_begin st = st\<lparr>loading := True, error := None\<rparr>"

definition fetch_end :: "thrown + Lesson list \<Rightarrow> LessonState \<Rightarrow> LessonState" where
  "fetch_end r st =
     (case r of
        Inr data \<Rightarrow> st\<lparr>lessons := data, loading := False\<rparr>
      | Inl e \<Rightarrow>
          st\<lparr>error := Some (case e of Error message \<Rightarrow> message
                                | NonError \<Rightarrow> ''Failed to fetch lessons data''),
             loading := False\<rparr>)"

definition fetchLessonsData :: "thrown + Lesson list \<Rightarrow> LessonState \<Rightarrow> LessonState" where
  "fetchLessonsData r st = fetch_end r (fetch_begin st)"

subsection \<open>takeClass\<close>

text \<open>
  \<^verbatim>\<open>authState.user?.name || 'Unknown Tutor'\<close>: the name of the user of the auth
  store, unless there is no user or the name is the empty string.
\<close>

definition currentUser :: "User option \<Rightarrow> string" where
  "currentUser user =
     (case user of
        None \<Rightarrow> ''Unknown Tutor''
      | Some u \<Rightarrow> if name u = [] then ''Unknown Tutor'' else name u)"

text \<open>
  The merged lesson: the spread of the local lesson, then of the response, then the four
  fields set explicitly. \<^verbatim>\<open>||\<close> takes the right operand when the left one is
  absent, \<^verbatim>\<open>null\<close> or the empty string; \<^verbatim>\<open>??\<close> only when it is absent or
  \<^verbatim>\<open>null\<close>. The students of a local lesson are a list, never \<^verbatim>\<open>null\<close>, so the
  last \<^verbatim>\<open>?? []\<close> is never reached.
\<close>

definition finalLesson :: "Lesson \<Rightarrow> PartialLesson \<Rightarrow> string \<Rightarrow> Lesson" where
  "finalLesson lessonToTake updatedLesson user_name =
     \<lparr> id_lesson = (case p_id updatedLesson of Some v \<Rightarrow> v | None \<Rightarrow> id_lesson lessonToTake),
       date = (case p_date updatedLesson of Some v \<Rightarrow> v | None \<Rightarrow> date lessonToTake),
       type = (case p_type updatedLesson of Some v \<Rightarrow> v | None \<Rightarrow> Upcoming),
       subject = (case p_subject updatedLesson of Some v \<Rightarrow> v | None \<Rightarrow> subject lessonToTake),
       students = (case p_students updatedLesson of Some v \<Rightarrow> v | None \<Rightarrow> students lessonToTake),
       tutor = Some (case p_tutor updatedLesson of
                       Some (Some t) \<Rightarrow> if t = [] then user_name else t
                     | _ \<Rightarrow> user_name),
       status = (case p_status updatedLesson of Some v \<Rightarrow> v | None \<Rightarrow> Confirmed) \<rparr>"

text \<open>
  \<^verbatim>\<open>takeClass(lessonId)\<close>. \<open>takeClassAPI\<close> is the claim service: what the awaited
  call gives for a lesson id, a rejection (\<open>Inl\<close>) or a response (\<open>Inr\<close>). The
  result is what the caller sees (\<open>Inl\<close> the thrown value) and the world afterwards.
\<close>

definition takeClass ::
    "(string \<Rightarrow> thrown + PartialLesson) \<Rightarrow> User option \<Rightarrow> string \<Rightarrow> world
       \<Rightarrow> (thrown + unit) \<times> world" where
  "takeClass takeClassAPI user lessonId w =
     (case find (\<lambda>lesson. id_lesson lesson = lessonId \<and> type lesson = Available)
             (lessons (store w)) of
        None \<Rightarrow> (Inl (Error ''Lesson not found or not available''), w)
      | Some lessonToTake \<Rightarrow>
          (let w1 = w\<lparr>claimCalls := claimCalls w @ [lessonId]\<rparr> in
           case takeClassAPI lessonId of
             Inl e \<Rightarrow> (Inl e, w1)
           | Inr updatedLesson \<Rightarrow>
               (let final = finalLesson lessonToTake updatedLesson (currentUser user);
                    updatedLessons =
                      map (\<lambda>lesson. if id_lesson lesson = lessonId then final else lesson)
                        (lessons (store w))
                in (Inr (), w1\<lparr>store := (store w1)\<lparr>lessons := updatedLessons\<rparr>\<rparr>))))"

section \<open>Dates\<close>

text \<open>
  A \<^verbatim>\<open>Date\<close> is its time value: the milliseconds since the epoch, or \<open>None\<close>
  for an invalid date (\<^verbatim>\<open>NaN\<close>). The relational operators compare the time
  values as numbers, and every comparison with \<^verbatim>\<open>NaN\<close> is false.
  \<^verbatim>\<open>new Date(lesson.date)\<close> parses a string; the parser is a parameter
  \<open>newDate\<close> of the functions that call it.
\<close>

type_synonym jsDate = "int option"

definition ge_date :: "jsDate \<Rightarrow> jsDate \<Rightarrow> bool" where
  "ge_date a b = (case a of None \<Rightarrow> False
                   | Some x \<Rightarrow> (case b of None \<Rightarrow> False | Some y \<Rightarrow> x \<ge> y))"

definition le_date :: "jsDate \<Rightarrow> jsDate \<Rightarrow> bool" where
  "le_date a b = (case a of None \<Rightarrow> False
                   | Some x \<Rightarrow> (case b of None \<Rightarrow> False | Some y \<Rightarrow> x \<le> y))"

definition lt_date :: "jsDate \<Rightarrow> jsDate \<Rightarrow> bool" where
  "lt_date a b = (case a of None \<Rightarrow> False
                   | Some x \<Rightarrow> (case b of None \<Rightarrow> False | Some y \<Rightarrow> x < y))"

subsection \<open>The calendar of the Date object\<close>

text \<open>
  The day and time arithmetic of the language standard, on time values. The clock stays
  inside the range of valid time values, so no setter clips to \<^verbatim>\<open>NaN\<close>.
\<close>

definition msPerDay :: int where
  "msPerDay = 86400000"

definition Day :: "int \<Rightarrow> int" where
  "Day t = t div msPerDay"

definition TimeWithinDay :: "int \<Rightarrow> int" where
  "TimeWithinDay t = t mod msPerDay"

text \<open>
  The time zone of the runtime: the offset from UTC (in milliseconds) in force at first, and
  the clock changes in order of time, each with its instant and the offset from then on.
\<close>

record zone =
  initialOffset :: int
  changes :: "(int \<times> int) list"

text \<open>The offset in force at an instant.\<close>

fun offsetFrom :: "int \<Rightarrow> (int \<times> int) list \<Rightarrow> int \<Rightarrow> int" where
  "offsetFrom off [] t = off"
| "offsetFrom off ((s, off') # cs) t = (if t < s then off else offsetFrom off' cs t)"

text \<open>
  The offset with which a local time is read. A local time that occurs twice, where the
  clock is set back, is read as its first occurrence; a local time that is skipped, where
  the clock is set forward, is read with the offset before the change. Both follow the
  standard's \<^verbatim>\<open>UTC(t)\<close>.
\<close>

fun localOffsetFrom :: "int \<Rightarrow> (int \<times> int) list \<Rightarrow> int \<Rightarrow> int" where
  "localOffsetFrom off [] t = off"
| "localOffsetFrom off ((s, off') # cs) t =
     (if t - off < s \<or> t - off' < s then off else localOffsetFrom off' cs t)"

definition offsetAt :: "zone \<Rightarrow> int \<Rightarrow> int" where
  "offsetAt z t = offsetFrom (initialOffset z) (changes z) t"

definition localOffset :: "zone \<Rightarrow> int \<Rightarrow> int" where
  "localOffset z t = localOffsetFrom (initialOffset z) (changes z) t"

definition LocalTime :: "zone \<Rightarrow> int \<Rightarrow> int" where
  "LocalTime z t = t + offsetAt z t"

definition UTC :: "zone \<Rightarrow> int \<Rightarrow> int" where
  "UTC z t = t - localOffset z t"



definition MakeTime :: "int \<Rightarrow> int \<Rightarrow> int \<Rightarrow> int \<Rightarrow> int" where
  "MakeTime hour minute sec ms = hour * 3600000 + minute * 60000 + sec * 1000 + ms"

definition MakeDate :: "int \<Rightarrow> int \<Rightarrow> int" where
  "MakeDate day time = day * msPerDay + time"

definition DayFromYear :: "int \<Rightarrow> int" where
  "DayFromYear y =
     365 * (y - 1970) + (y - 1969) div 4 - (y - 1901) div 100 + (y - 1601) div 400"

definition InLeapYear :: "int \<Rightarrow> bool" where
  "InLeapYear y = (y mod 4 = 0 \<and> (y mod 100 \<noteq> 0 \<or> y mod 400 = 0))"

text \<open>The number of days of the year before month \<open>m\<close> (0 is January).\<close>

definition daysBeforeMonth :: "int \<Rightarrow> bool \<Rightarrow> int" where
  "daysBeforeMonth m leap =
     [0, 31, 59, 90, 120, 151, 181, 212, 243, 273, 304, 334] ! nat m
       + (if leap \<and> 2 \<le> m then 1 else 0)"

text \<open>
  Months are counted by the index \<open>12 * year + month\<close>. \<open>monthStartDay\<close> is the day
  number of the first day of a month; \<open>monthOfDay\<close> is the month a day lies in, found
  by walking forward from a month that starts no later than the day.
\<close>

definition monthStartDay :: "int \<Rightarrow> int" where
  "monthStartDay mi =
     DayFromYear (mi div 12) + daysBeforeMonth (mi mod 12) (InLeapYear (mi div 12))"

text \<open>Every month has between 28 and 31 days, so the search below terminates.\<close>

lemma div_succ:
  assumes "0 < (k::int)"
  shows "(a + 1) div k = a div k + (if k dvd (a + 1) then 1 else 0)"
proof -
  have e: "a + 1 = k * (a div k) + (a mod k + 1)"
    by simp
  have r: "0 \<le> a mod k" "a mod k < k" using assms by simp_all
  show ?thesis
  proof (cases "a mod k + 1 = k")
    case True
    with e have e': "a + 1 = k * (a div k + 1) + 0"
      by (simp only: True distrib_left mult_1_right add_0_right)
    have "(a + 1) div k = a div k + 1"
      by (rule int_div_pos_eq [OF e']) (use assms in simp_all)
    moreover have "(a + 1) mod k = 0"
      by (rule int_mod_pos_eq [OF e']) (use assms in simp_all)
    ultimately show ?thesis by (simp add: dvd_eq_mod_eq_0)
  next
    case False
    with r have r': "0 \<le> a mod k + 1" "a mod k + 1 < k" by simp_all
    have "(a + 1) div k = a div k"
      by (rule int_div_pos_eq [OF e r'])
    moreover have "(a + 1) mod k = a mod k + 1"
      by (rule int_mod_pos_eq [OF e r'])
    ultimately show ?thesis using r by (simp add: dvd_eq_mod_eq_0)
  qed
qed

lemma div_succ_shift:
  assumes "0 < (k::int)" and "k dvd c + 1"
  shows "(y + 1 - (c + 2)) div k = (y - (c + 2)) div k + (if k dvd y then 1 else 0)"
proof -
  have "y + 1 - (c + 2) = (y - (c + 2)) + 1" by simp
  moreover have "k dvd (y - (c + 2) + 1) \<longleftrightarrow> k dvd y"
    using dvd_diff_left_iff [OF assms(2), of y] by (simp add: algebra_simps)
  ultimately show ?thesis using div_succ [OF assms(1), of "y - (c + 2)"] by simp
qed

lemma DayFromYear_Suc:
  "DayFromYear (y + 1) = DayFromYear y + (if InLeapYear y then 366 else 365)"
proof -
  have a: "(y + 1 - 1969) div 4 = (y - 1969) div 4 + (if 4 dvd y then 1 else 0)"
    using div_succ_shift [of 4 1967 y] by simp
  have b: "(y + 1 - 1901) div 100 = (y - 1901) div 100 + (if 100 dvd y then 1 else 0)"
    using div_succ_shift [of 100 1899 y] by simp
  have c: "(y + 1 - 1601) div 400 = (y - 1601) div 400 + (if 400 dvd y then 1 else 0)"
    using div_succ_shift [of 400 1599 y] by simp
  have d: "400 dvd y \<Longrightarrow> 100 dvd y" "100 dvd y \<Longrightarrow> 4 dvd y"
    by (rule dvd_trans [of 100 400 y], simp, assumption)
       (rule dvd_trans [of 4 100 y], simp, assumption)
  have "DayFromYear (y + 1) = DayFromYear y + 365 + (if 4 dvd y then 1 else 0)
          - (if 100 dvd y then 1 else 0) + (if 400 dvd y then 1 else 0)"
    unfolding DayFromYear_def a b c by (simp only: algebra_simps)
  moreover have "InLeapYear y = (4 dvd y \<and> (\<not> 100 dvd y \<or> 400 dvd y))"
    by (simp only: InLeapYear_def mod_eq_0_iff_dvd)
  ultimately show ?thesis
    using d by (cases "4 dvd y"; cases "100 dvd y"; cases "400 dvd y") simp_all
qed

lemma monthStartDay_split:
  assumes "0 \<le> m" and "m < 12"
  shows "monthStartDay (12 * y + m) = DayFromYear y + daysBeforeMonth m (InLeapYear y)"
proof -
  have "12 * y + m = 12 * y + m" by simp
  from int_div_pos_eq [OF this assms] int_mod_pos_eq [OF this assms]
  show ?thesis
    by (simp only: monthStartDay_def)
qed

lemma daysBeforeMonth_values:
  "daysBeforeMonth 0 l = 0" "daysBeforeMonth 1 l = 31"
  "daysBeforeMonth 2 l = (if l then 60 else 59)" "daysBeforeMonth 3 l = (if l then 91 else 90)"
  "daysBeforeMonth 4 l = (if l then 121 else 120)" "daysBeforeMonth 5 l = (if l then 152 else 151)"
  "daysBeforeMonth 6 l = (if l then 182 else 181)" "daysBeforeMonth 7 l = (if l then 213 else 212)"
  "daysBeforeMonth 8 l = (if l then 244 else 243)" "daysBeforeMonth 9 l = (if l then 274 else 273)"
  "daysBeforeMonth 10 l = (if l then 305 else 304)" "daysBeforeMonth 11 l = (if l then 335 else 334)"
  by (simp_all add: daysBeforeMonth_def)

lemma monthStartDay_same_year:
  assumes "0 \<le> m" and "m < 11"
  shows "monthStartDay (12 * y + m + 1) - monthStartDay (12 * y + m)
           = daysBeforeMonth (m + 1) (InLeapYear y) - daysBeforeMonth m (InLeapYear y)"
proof -
  have "monthStartDay (12 * y + (m + 1)) = DayFromYear y + daysBeforeMonth (m + 1) (InLeapYear y)"
    by (rule monthStartDay_split) (use assms in simp_all)
  moreover have "monthStartDay (12 * y + m) = DayFromYear y + daysBeforeMonth m (InLeapYear y)"
    by (rule monthStartDay_split) (use assms in simp_all)
  ultimately show ?thesis by (simp add: add.assoc)
qed

lemma monthStartDay_next_year:
  "monthStartDay (12 * y + 11 + 1) - monthStartDay (12 * y + 11) = 31"
proof -
  have "monthStartDay (12 * (y + 1) + 0) = DayFromYear (y + 1) + daysBeforeMonth 0 (InLeapYear (y + 1))"
    by (rule monthStartDay_split) simp_all
  moreover have "12 * (y + 1) + 0 = 12 * y + 11 + 1" by simp
  ultimately have A: "monthStartDay (12 * y + 11 + 1) = DayFromYear (y + 1)"
    by (simp only: daysBeforeMonth_values add_0_right)
  have "monthStartDay (12 * y + 11) = DayFromYear y + daysBeforeMonth 11 (InLeapYear y)"
    by (rule monthStartDay_split) simp_all
  then have B: "monthStartDay (12 * y + 11) = DayFromYear y + (if InLeapYear y then 335 else 334)"
    by (simp only: daysBeforeMonth_values)
  show ?thesis
    unfolding A B DayFromYear_Suc by (cases "InLeapYear y") simp_all
qed

lemma month_length_bounds:
  assumes "0 \<le> m" and "m < 11"
  shows "28 \<le> daysBeforeMonth (m + 1) l - daysBeforeMonth m l
         \<and> daysBeforeMonth (m + 1) l - daysBeforeMonth m l \<le> 31"
proof -
  from assms have "m = 0 \<or> m = 1 \<or> m = 2 \<or> m = 3 \<or> m = 4 \<or> m = 5 \<or> m = 6
    \<or> m = 7 \<or> m = 8 \<or> m = 9 \<or> m = 10"
    by arith
  then show ?thesis
    by (elim disjE) (simp_all add: daysBeforeMonth_values)
qed

lemma monthStartDay_step:
  "monthStartDay mi + 28 \<le> monthStartDay (mi + 1)
   \<and> monthStartDay (mi + 1) \<le> monthStartDay mi + 31"
proof -
  define y where "y = mi div 12"
  define m where "m = mi mod 12"
  have mi: "mi = 12 * y + m" and m: "0 \<le> m" "m < 12"
    by (simp_all add: y_def m_def)
  show ?thesis
  proof (cases "m = 11")
    case True
    then show ?thesis
      using monthStartDay_next_year [of y] unfolding mi by simp
  next
    case False
    with m have "m < 11" by simp
    from monthStartDay_same_year [OF m(1) this, of y] month_length_bounds [OF m(1) this, of "InLeapYear y"]
    show ?thesis unfolding mi by simp
  qed
qed

lemma monthStartDay_less: "monthStartDay mi < monthStartDay (mi + 1)"
  using monthStartDay_step [of mi] by simp

function monthSearch :: "int \<Rightarrow> int \<Rightarrow> int" where
  "monthSearch mi z = (if monthStartDay (mi + 1) \<le> z then monthSearch (mi + 1) z else mi)"
  by pat_completeness auto
termination
proof (relation "measure (\<lambda>(mi, z). nat (z - monthStartDay mi))")
  show "wf (measure (\<lambda>(mi, z). nat (z - monthStartDay mi)))"
    by simp
next
  fix mi z :: int
  assume "monthStartDay (mi + 1) \<le> z"
  with monthStartDay_less [of mi]
  show "((mi + 1, z), (mi, z)) \<in> measure (\<lambda>(mi, z). nat (z - monthStartDay mi))"
    by simp
qed

declare monthSearch.simps [simp del]

definition monthOfDay :: "int \<Rightarrow> int" where
  "monthOfDay z =
     monthSearch (23640 + (if 0 \<le> z then z div 31 else z div 28)) z"



text \<open>The local date fields of a time value, and the setters, as the standard defines them.\<close>

definition getFullYear :: "zone \<Rightarrow> int \<Rightarrow> int" where
  "getFullYear z t = monthOfDay (Day (LocalTime z t)) div 12"

definition getMonth :: "zone \<Rightarrow> int \<Rightarrow> int" where
  "getMonth z t = monthOfDay (Day (LocalTime z t)) mod 12"

definition getDate :: "zone \<Rightarrow> int \<Rightarrow> int" where
  "getDate z t =
     (let z = Day (LocalTime z t) in z - monthStartDay (monthOfDay z) + 1)"

definition MakeDay :: "int \<Rightarrow> int \<Rightarrow> int \<Rightarrow> int" where
  "MakeDay year month dt =
     (let ym = year + month div 12; mn = month mod 12
      in monthStartDay (12 * ym + mn) + dt - 1)"

definition setHours :: "zone \<Rightarrow> int \<Rightarrow> int \<Rightarrow> int \<Rightarrow> int \<Rightarrow> int \<Rightarrow> int" where
  "setHours z t hour minute sec ms =
     UTC z (MakeDate (Day (LocalTime z t)) (MakeTime hour minute sec ms))"

definition setDate :: "zone \<Rightarrow> int \<Rightarrow> int \<Rightarrow> int" where
  "setDate z t dt =
     UTC z (MakeDate (MakeDay (getFullYear z t) (getMonth z t) dt)
               (TimeWithinDay (LocalTime z t)))"

definition setMonth :: "zone \<Rightarrow> int \<Rightarrow> int \<Rightarrow> int \<Rightarrow> int" where
  "setMonth z t month dt =
     UTC z (MakeDate (MakeDay (getFullYear z t) month dt) (TimeWithinDay (LocalTime z t)))"

definition setFullYear :: "zone \<Rightarrow> int \<Rightarrow> int \<Rightarrow> int \<Rightarrow> int \<Rightarrow> int" where
  "setFullYear z t year month dt =
     UTC z (MakeDate (MakeDay year month dt) (TimeWithinDay (LocalTime z t)))"

subsection \<open>The date library\<close>



definition startOfMonth :: "zone \<Rightarrow> int \<Rightarrow> int" where
  "startOfMonth z t = setHours z (setDate z t 1) 0 0 0 0"

definition endOfMonth :: "zone \<Rightarrow> int \<Rightarrow> int" where
  "endOfMonth z t =
     (let month = getMonth z t
      in setHours z (setFullYear z t (getFullYear z t) (month + 1) 0) 23 59 59 999)"

definition addMonths :: "zone \<Rightarrow> int \<Rightarrow> int \<Rightarrow> int" where
  "addMonths z t amount =
     (if amount = 0 then t
      else
        let dayOfMonth = getDate z t;
            endOfDesiredMonth = setMonth z t (getMonth z t + amount + 1) 0;
            daysInMonth = getDate z endOfDesiredMonth
        in if dayOfMonth \<ge> daysInMonth then endOfDesiredMonth
           else setFullYear z t (getFullYear z endOfDesiredMonth)
                  (getMonth z endOfDesiredMonth) dayOfMonth)"

definition subMonths :: "zone \<Rightarrow> int \<Rightarrow> int \<Rightarrow> int" where
  "subMonths z t amount = addMonths z t (- amount)"

subsection \<open>Utilities\<close>


definition getMonthRange :: "zone \<Rightarrow> int \<Rightarrow> jsDate \<times> jsDate" where
  "getMonthRange z d =
     (let monthStart = startOfMonth z d; monthEnd = endOfMonth z d
      in (Some monthStart, Some monthEnd))"

definition filterLessonsByDateRange ::
    "(string \<Rightarrow> jsDate) \<Rightarrow> Lesson list \<Rightarrow> jsDate \<Rightarrow> jsDate \<Rightarrow> Lesson list" where
  "filterLessonsByDateRange newDate ls startDate endDate =
     filter (\<lambda>lesson. let lessonDate = newDate (date lesson)
                      in ge_date lessonDate startDate \<and> le_date lessonDate endDate) ls"


subsection \<open>The store's filter\<close>

text \<open>
  \<^verbatim>\<open>filteredLessons(type?, dateRange?)\<close> on the lessons of the store. An argument
  that is not given is \<open>None\<close>.
\<close>

definition filteredLessons ::
    "(string \<Rightarrow> jsDate) \<Rightarrow> zone \<Rightarrow> int \<Rightarrow> LessonState
       \<Rightarrow> LessonFilterType option \<Rightarrow> (jsDate \<times> jsDate) option \<Rightarrow> Lesson list" where
  "filteredLessons newDate z now st type' dateRange =
     (let filtered = lessons st;
          filtered =
            (case type' of
               None \<Rightarrow> filtered
             | Some Today \<Rightarrow>
                 (let today = setHours z now 0 0 0 0;
                      tomorrow = setDate z today (getDate z today + 1)
                  in filter (\<lambda>lesson. let lessonDate = newDate (date lesson)
                                      in ge_date lessonDate (Some today)
                                         \<and> lt_date lessonDate (Some tomorrow)) filtered)
             | Some (Type t) \<Rightarrow> filter (\<lambda>lesson. type lesson = t) filtered);
          filtered =
            (case dateRange of
               None \<Rightarrow> filtered
             | Some (start, end') \<Rightarrow>
                 filter (\<lambda>lesson. let lessonDate = newDate (date lesson)
                                  in ge_date lessonDate start \<and> le_date lessonDate end')
                   filtered)
      in filtered)"

section \<open>The dashboard\<close>

text \<open>
  The constants \<^verbatim>\<open>MONTH_FILTER\<close> and \<^verbatim>\<open>DATE_FILTER\<close>, and the two pieces of
  component state that hold the filter selection (\<^verbatim>\<open>null\<close> is \<open>None\<close>).
\<close>

definition MONTHS_BACK :: int where
  "MONTHS_BACK = 5"

definition PAST_MONTHS_THRESHOLD :: int where
  "PAST_MONTHS_THRESHOLD = 5"

definition CLEAR_MONTH_INDEX :: int where
  "CLEAR_MONTH_INDEX = - 1"

record FilterSelection =
  selectedMonth :: "int option"
  dateRange :: "(jsDate \<times> jsDate) option"

definition initialSelection :: FilterSelection where
  "initialSelection = \<lparr>selectedMonth = None, dateRange = None\<rparr>"

definition handleMonthChange :: "int \<Rightarrow> FilterSelection \<Rightarrow> FilterSelection" where
  "handleMonthChange monthIndex s =
     (if monthIndex = CLEAR_MONTH_INDEX
      then s\<lparr>selectedMonth := None, dateRange := None\<rparr>
      else s\<lparr>selectedMonth := Some monthIndex, dateRange := None\<rparr>)"

text \<open>
  \<^verbatim>\<open>handleDateRangeChange(start, end)\<close>: each argument is a date or \<^verbatim>\<open>null\<close>.
  A date object is truthy even when it is invalid.
\<close>

definition handleDateRangeChange ::
    "jsDate option \<Rightarrow> jsDate option \<Rightarrow> FilterSelection \<Rightarrow> FilterSelection" where
  "handleDateRangeChange start end' s =
     (case start of
        None \<Rightarrow> s\<lparr>dateRange := None\<rparr>
      | Some a \<Rightarrow>
          (case end' of
             None \<Rightarrow> s\<lparr>dateRange := None\<rparr>
           | Some b \<Rightarrow> s\<lparr>dateRange := Some (a, b), selectedMonth := None\<rparr>))"

text \<open>The filter bar's clear action calls both handlers, in this order.\<close>

definition handleClearFilters :: "FilterSelection \<Rightarrow> FilterSelection" where
  "handleClearFilters s = handleDateRangeChange None None (handleMonthChange CLEAR_MONTH_INDEX s)"

text \<open>The states the three actions can reach from the initial selection.\<close>

inductive reachable :: "FilterSelection \<Rightarrow> bool" where
  init: "reachable initialSelection"
| month: "reachable s \<Longrightarrow> reachable (handleMonthChange monthIndex s)"
| range: "reachable s \<Longrightarrow> reachable (handleDateRangeChange start end' s)"
| clear: "reachable s \<Longrightarrow> reachable (handleClearFilters s)"

text \<open>
  The month of the selected window slot, as \<^verbatim>\<open>getFilteredLessonsByType\<close> computes
  it (its local \<^verbatim>\<open>targetDate\<close>), and the function itself.
\<close>

definition targetDate :: "zone \<Rightarrow> int \<Rightarrow> int \<Rightarrow> int" where
  "targetDate z now selMonth =
     (let currentMonth = startOfMonth z now
      in if selMonth \<le> PAST_MONTHS_THRESHOLD
         then subMonths z currentMonth (MONTHS_BACK - selMonth)
         else addMonths z currentMonth (selMonth - MONTHS_BACK))"

definition getFilteredLessonsByType ::
    "(string \<Rightarrow> jsDate) \<Rightarrow> zone \<Rightarrow> int \<Rightarrow> LessonState \<Rightarrow> FilterSelection
       \<Rightarrow> LessonFilterType \<Rightarrow> Lesson list" where
  "getFilteredLessonsByType newDate z now st sel type' =
     (let filtered = filteredLessons newDate z now st (Some type') (dateRange sel)
      in case selectedMonth sel of
           None \<Rightarrow> filtered
         | Some selMonth \<Rightarrow>
             (case getMonthRange z (targetDate z now selMonth) of
                (monthStart, monthEnd) \<Rightarrow>
                  filterLessonsByDateRange newDate filtered monthStart monthEnd))"

section \<open>The lesson store: properties\<close>

text \<open>
  Claim C1. When the collection holds no lesson with the given id whose type is
  \<open>Available\<close>, \<open>takeClass\<close> throws the error "Lesson not found or not available",
  sends nothing to the claim service and leaves the store as it was.
\<close>

theorem takeClass_guard_fails:
  assumes "\<not> (\<exists>l \<in> set (lessons (store w)). id_lesson l = lessonId \<and> type l = Available)"
  shows "takeClass takeClassAPI user lessonId w
           = (Inl (Error ''Lesson not found or not available''), w)"
proof -
  from assms
  have "find (\<lambda>lesson. id_lesson lesson = lessonId \<and> type lesson = Available)
          (lessons (store w)) = None"
    by (simp add: find_None_iff)
  then show ?thesis
    by (simp add: takeClass_def)
qed


text \<open>Sample data for the concrete instances below, taken from the mock lessons.\<close>

definition L001 :: Lesson where
  "L001 = \<lparr> id_lesson = ''L001'', date = ''2025-10-28T14:00:00Z'', type = Historic,
            subject = ''Minecraft Game Design - Level 1'', students = [''Ethan'', ''Ava''],
            tutor = Some ''Sarah Tan'', status = Completed \<rparr>"

definition L007 :: Lesson where
  "L007 = \<lparr> id_lesson = ''L007'', date = ''2025-11-12T11:00:00Z'', type = Available,
            subject = ''Python for Kids - Game Projects'', students = [],
            tutor = None, status = Available_status \<rparr>"

definition sampleWorld :: world where
  "sampleWorld = \<lparr> store = \<lparr>lessons = [L001, L007], loading = False, error = None\<rparr>,
                    claimCalls = [] \<rparr>"

definition sampleUser :: User where
  "sampleUser = \<lparr> id_user = ''1'', name = ''Sarah Tan'', email = ''sarah@example.com'' \<rparr>"

definition emptyResponse :: PartialLesson where
  "emptyResponse = \<lparr> p_id = None, p_date = None, p_type = None, p_subject = None,
                      p_students = None, p_tutor = None, p_status = None \<rparr>"

theorem takeClass_guard_fails_witness:
  "\<not> (\<exists>l \<in> set (lessons (store sampleWorld)). id_lesson l = ''L001'' \<and> type l = Available)
   \<and> takeClass (\<lambda>_. Inr emptyResponse) (Some sampleUser) ''L001'' sampleWorld
       = (Inl (Error ''Lesson not found or not available''), sampleWorld)"
proof -
  have h: "\<not> (\<exists>l \<in> set (lessons (store sampleWorld)).
                id_lesson l = ''L001'' \<and> type l = Available)"
    by (simp add: sampleWorld_def L001_def L007_def)
  show ?thesis
    using h takeClass_guard_fails [OF h, of "\<lambda>_. Inr emptyResponse" "Some sampleUser"]
    by simp
qed

text \<open>
  Claim C3. When the guard passes and the claim service rejects, \<open>takeClass\<close> throws
  the very value the service gave, and the store is what it was before the call: nothing
  is written before the service has answered. (The request itself was sent.)
\<close>

theorem takeClass_service_failure:
  assumes "\<exists>l \<in> set (lessons (store w)). id_lesson l = lessonId \<and> type l = Available"
    and "takeClassAPI lessonId = Inl e"
  shows "fst (takeClass takeClassAPI user lessonId w) = Inl e
         \<and> store (snd (takeClass takeClassAPI user lessonId w)) = store w
         \<and> claimCalls (snd (takeClass takeClassAPI user lessonId w)) = claimCalls w @ [lessonId]"
proof -
  from assms(1)
  obtain l0 where
    "find (\<lambda>lesson. id_lesson lesson = lessonId \<and> type lesson = Available)
       (lessons (store w)) = Some l0"
    by (cases "find (\<lambda>lesson. id_lesson lesson = lessonId \<and> type lesson = Available)
                 (lessons (store w))") (auto simp: find_None_iff)
  with assms(2) show ?thesis
    by (simp add: takeClass_def)
qed

theorem takeClass_service_failure_witness:
  "(\<exists>l \<in> set (lessons (store sampleWorld)). id_lesson l = ''L007'' \<and> type l = Available)
   \<and> fst (takeClass (\<lambda>_. Inl (Error ''Failed to take class: Request timeout after 30000ms''))
            (Some sampleUser) ''L007'' sampleWorld)
       = Inl (Error ''Failed to take class: Request timeout after 30000ms'')
   \<and> store (snd (takeClass (\<lambda>_. Inl (Error ''Failed to take class: Request timeout after 30000ms''))
                   (Some sampleUser) ''L007'' sampleWorld))
       = store sampleWorld"
proof -
  have h: "\<exists>l \<in> set (lessons (store sampleWorld)). id_lesson l = ''L007'' \<and> type l = Available"
    by (simp add: sampleWorld_def L001_def L007_def)
  show ?thesis
    using h takeClass_service_failure [OF h,
        of "\<lambda>_. Inl (Error ''Failed to take class: Request timeout after 30000ms'')"
           "Error ''Failed to take class: Request timeout after 30000ms''" "Some sampleUser"]
    by simp
qed

text \<open>
  Claim C8. \<open>fetchLessonsData\<close> first sets \<open>loading\<close> and clears \<open>error\<close>, keeping
  the lessons. When the request succeeds the lessons are the response, \<open>loading\<close> is
  off and \<open>error\<close> is still clear. When it fails \<open>error\<close> holds the message of the
  thrown \<^verbatim>\<open>Error\<close> (a fixed text for any other thrown value), \<open>loading\<close> is off and
  the lessons are the ones held before.
\<close>

theorem fetchLessonsData_transitions:
  "fetch_begin st = \<lparr>lessons = lessons st, loading = True, error = None\<rparr>
   \<and> fetchLessonsData (Inr data) st = \<lparr>lessons = data, loading = False, error = None\<rparr>
   \<and> fetchLessonsData (Inl (Error message)) st
       = \<lparr>lessons = lessons st, loading = False, error = Some message\<rparr>
   \<and> fetchLessonsData (Inl NonError) st
       = \<lparr>lessons = lessons st, loading = False, error = Some ''Failed to fetch lessons data''\<rparr>"
  by (simp add: fetchLessonsData_def fetch_begin_def fetch_end_def)


definition claimWorld :: world where
  "claimWorld = \<lparr> store = \<lparr>lessons = [L007], loading = False, error = None\<rparr>,
                   claimCalls = [] \<rparr>"

definition nullTutorResponse :: PartialLesson where
  "nullTutorResponse = emptyResponse\<lparr>p_tutor := Some None\<rparr>"

definition emptyTutorResponse :: PartialLesson where
  "emptyTutorResponse = emptyResponse\<lparr>p_tutor := Some (Some [])\<rparr>"

definition upcomingResponse :: PartialLesson where
  "upcomingResponse = emptyResponse\<lparr>p_type := Some Upcoming\<rparr>"

text \<open>
  Claim C2, as stated, fails for the tutor. A response whose tutor field is present with
  the value \<^verbatim>\<open>null\<close> does not give the merged lesson that tutor: the call succeeds
  and the merged lesson has the name of the current user. The same happens when the tutor
  is present as the empty string.
\<close>

theorem takeClass_null_tutor_counterexample:
  "p_tutor nullTutorResponse = Some None
   \<and> takeClass (\<lambda>_. Inr nullTutorResponse) (Some sampleUser) ''L007'' claimWorld
       = (Inr (),
          \<lparr> store = \<lparr>lessons = [L007\<lparr>type := Upcoming, tutor := Some ''Sarah Tan'',
                                       status := Confirmed\<rparr>],
                      loading = False, error = None\<rparr>,
            claimCalls = [''L007''] \<rparr>)
   \<and> p_tutor emptyTutorResponse = Some (Some [])
   \<and> map tutor (lessons (store (snd (takeClass (\<lambda>_. Inr emptyTutorResponse) (Some sampleUser)
                                        ''L007'' claimWorld))))
       = [Some ''Sarah Tan'']"
  by (simp add: nullTutorResponse_def emptyTutorResponse_def emptyResponse_def takeClass_def
        claimWorld_def L007_def finalLesson_def currentUser_def sampleUser_def)

text \<open>
  Claim C2, amended. When the guard finds the lesson and the claim service answers, the
  call succeeds and every lesson with that id is replaced by the merge of the found lesson
  and the response. In the merge id, date, subject, type, status and students are the
  response's when present; a tutor given as a non-empty string is the response's; the type
  is \<open>Upcoming\<close> and the status \<open>Confirmed\<close> when omitted; the students are those of
  the lesson before the claim when omitted; the tutor is the name of the current user when
  the response omits it or gives \<^verbatim>\<open>null\<close> or the empty string, and that name is
  "Unknown Tutor" when there is no user or the user's name is empty.
\<close>

theorem takeClass_success_merge:
  fixes user :: "User option"
  assumes guard: "find (\<lambda>lesson. id_lesson lesson = lessonId \<and> type lesson = Available)
                    (lessons (store w)) = Some lessonToTake"
    and api: "takeClassAPI lessonId = Inr r"
  defines "final \<equiv> finalLesson lessonToTake r (currentUser user)"
  defines "w' \<equiv> snd (takeClass takeClassAPI user lessonId w)"
  shows "fst (takeClass takeClassAPI user lessonId w) = Inr ()
    \<and> lessons (store w')
        = map (\<lambda>lesson. if id_lesson lesson = lessonId then final else lesson) (lessons (store w))
    \<and> final \<in> set (lessons (store w'))
    \<and> id_lesson final = (case p_id r of Some v \<Rightarrow> v | None \<Rightarrow> id_lesson lessonToTake)
    \<and> date final = (case p_date r of Some v \<Rightarrow> v | None \<Rightarrow> date lessonToTake)
    \<and> subject final = (case p_subject r of Some v \<Rightarrow> v | None \<Rightarrow> subject lessonToTake)
    \<and> type final = (case p_type r of Some v \<Rightarrow> v | None \<Rightarrow> Upcoming)
    \<and> status final = (case p_status r of Some v \<Rightarrow> v | None \<Rightarrow> Confirmed)
    \<and> students final = (case p_students r of Some v \<Rightarrow> v | None \<Rightarrow> students lessonToTake)
    \<and> (\<forall>t. p_tutor r = Some (Some t) \<and> t \<noteq> [] \<longrightarrow> tutor final = Some t)
    \<and> (p_tutor r = None \<or> p_tutor r = Some None \<or> p_tutor r = Some (Some [])
         \<longrightarrow> tutor final = Some (currentUser user))
    \<and> (\<forall>u. user = Some u \<and> name u \<noteq> [] \<longrightarrow> currentUser user = name u)
    \<and> (user = None \<or> (\<exists>u. user = Some u \<and> name u = [])
         \<longrightarrow> currentUser user = ''Unknown Tutor'')"
proof -
  have res: "takeClass takeClassAPI user lessonId w
      = (Inr (), w\<lparr>claimCalls := claimCalls w @ [lessonId],
                   store := (store w)\<lparr>lessons :=
                     map (\<lambda>lesson. if id_lesson lesson = lessonId then final else lesson)
                       (lessons (store w))\<rparr>\<rparr>)"
    using guard api by (simp add: takeClass_def final_def Let_def)
  from guard have mem: "lessonToTake \<in> set (lessons (store w))" "id_lesson lessonToTake = lessonId"
    by (auto simp: find_Some_iff)
  have a: "fst (takeClass takeClassAPI user lessonId w) = Inr ()"
    by (simp add: res)
  have b: "lessons (store w')
        = map (\<lambda>lesson. if id_lesson lesson = lessonId then final else lesson) (lessons (store w))"
    by (simp add: w'_def res)
  have c: "final \<in> set (lessons (store w'))"
    unfolding b using mem by force
  have d: "(\<forall>u. user = Some u \<and> name u \<noteq> [] \<longrightarrow> currentUser user = name u)
    \<and> (user = None \<or> (\<exists>u. user = Some u \<and> name u = [])
         \<longrightarrow> currentUser user = ''Unknown Tutor'')"
    by (auto simp: currentUser_def)
  have e: "(\<forall>t. p_tutor r = Some (Some t) \<and> t \<noteq> [] \<longrightarrow> tutor final = Some t)
    \<and> (p_tutor r = None \<or> p_tutor r = Some None \<or> p_tutor r = Some (Some [])
         \<longrightarrow> tutor final = Some (currentUser user))"
    by (auto simp: final_def finalLesson_def)
  have f: "id_lesson final = (case p_id r of Some v \<Rightarrow> v | None \<Rightarrow> id_lesson lessonToTake)
    \<and> date final = (case p_date r of Some v \<Rightarrow> v | None \<Rightarrow> date lessonToTake)
    \<and> subject final = (case p_subject r of Some v \<Rightarrow> v | None \<Rightarrow> subject lessonToTake)
    \<and> type final = (case p_type r of Some v \<Rightarrow> v | None \<Rightarrow> Upcoming)
    \<and> status final = (case p_status r of Some v \<Rightarrow> v | None \<Rightarrow> Confirmed)
    \<and> students final = (case p_students r of Some v \<Rightarrow> v | None \<Rightarrow> students lessonToTake)"
    by (simp add: final_def finalLesson_def)
  from a b c d e f show ?thesis
    by blast
qed

theorem takeClass_success_merge_witness:
  "find (\<lambda>lesson. id_lesson lesson = ''L007'' \<and> type lesson = Available)
     (lessons (store sampleWorld)) = Some L007
   \<and> (\<lambda>_. Inr upcomingResponse) ''L007'' = (Inr upcomingResponse :: thrown + PartialLesson)
   \<and> lessons (store (snd (takeClass (\<lambda>_. Inr upcomingResponse) (Some sampleUser) ''L007''
                             sampleWorld)))
       = [L001, L007\<lparr>type := Upcoming, tutor := Some ''Sarah Tan'', status := Confirmed\<rparr>]"
proof -
  have h1: "find (\<lambda>lesson. id_lesson lesson = ''L007'' \<and> type lesson = Available)
     (lessons (store sampleWorld)) = Some L007"
    by (simp add: sampleWorld_def L001_def L007_def)
  have h2: "(\<lambda>_. Inr upcomingResponse) ''L007'' = (Inr upcomingResponse :: thrown + PartialLesson)"
    by simp
  have "lessons (store (snd (takeClass (\<lambda>_. Inr upcomingResponse) (Some sampleUser) ''L007''
                             sampleWorld)))
       = map (\<lambda>lesson. if id_lesson lesson = ''L007''
                        then finalLesson L007 upcomingResponse (currentUser (Some sampleUser))
                        else lesson) (lessons (store sampleWorld))"
    using takeClass_success_merge [OF h1 h2, of "Some sampleUser"] by blast
  then show ?thesis
    using h1 by (simp add: sampleWorld_def L001_def L007_def finalLesson_def currentUser_def
        sampleUser_def upcomingResponse_def emptyResponse_def)
qed

section \<open>Dates and filters: properties\<close>

subsection \<open>Local time in a regular zone\<close>











subsection \<open>The month of a day\<close>











subsection \<open>Months as ranges of time values\<close>
















subsection \<open>Sample zones and lessons\<close>


definition newYork :: zone where
  "newYork = \<lparr> initialOffset = - 18000000,
                changes = [(1741503600000, - 14400000), (1762063200000, - 18000000),
                           (1772953200000, - 14400000), (1793512800000, - 18000000)] \<rparr>"

definition singapore :: zone where
  "singapore = \<lparr> initialOffset = 28800000, changes = [] \<rparr>"

definition sampleNewDate :: "string \<Rightarrow> jsDate" where
  "sampleNewDate = map_of
     [(''2025-10-28T14:00:00Z'', 1761660000000),
      (''2025-11-12T11:00:00Z'', 1762945200000),
      (''2025-04-05T15:00:00Z'', 1743865200000),
      (''2025-04-06T03:00:00Z'', 1743908400000),
      (''2025-04-06T03:59:59.999Z'', 1743911999999),
      (''2025-11-01T04:30:00Z'', 1761971400000),
      (''2025-12-01T04:30:00Z'', 1764563400000),
      (''2025-11-02T04:00:00Z'', 1762056000000),
      (''2025-11-03T04:59:59.999Z'', 1762145999999),
      (''2025-11-03T05:00:00Z'', 1762146000000)]"

definition lessonAt :: "string \<Rightarrow> string \<Rightarrow> Lesson" where
  "lessonAt i d = \<lparr> id_lesson = i, date = d, type = Upcoming,
                    subject = ''Roblox Coding Basics'', students = [''Lucas''],
                    tutor = Some ''Sarah Tan'', status = Confirmed \<rparr>"

definition storeOf :: "Lesson list \<Rightarrow> LessonState" where
  "storeOf ls = \<lparr>lessons = ls, loading = False, error = None\<rparr>"

subsection \<open>The filters\<close>





text \<open>
  Claim C6. Filtering by a concrete type returns exactly the lessons of that type, in the
  order of the collection (the result is the collection with the other lessons left
  out), and filtering the result again by the same type changes nothing.
\<close>

theorem filteredLessons_by_type:
  "filteredLessons newDate z now st (Some (Type t)) None
     = filter (\<lambda>lesson. type lesson = t) (lessons st)
   \<and> subseq (filteredLessons newDate z now st (Some (Type t)) None) (lessons st)
   \<and> filteredLessons newDate z now
        (st\<lparr>lessons := filteredLessons newDate z now st (Some (Type t)) None\<rparr>)
        (Some (Type t)) None
       = filteredLessons newDate z now st (Some (Type t)) None"
  by (simp add: filteredLessons_def)






section \<open>The dashboard: properties\<close>

text \<open>
  Claim C9. In every state the filter actions can reach, the selected month and the date
  range are not both set. Selecting a month clears the range, selecting a complete range
  clears the month, and the clear action clears both.
\<close>

theorem selection_exclusive:
  "(reachable s \<longrightarrow> selectedMonth s = None \<or> dateRange s = None)
   \<and> dateRange (handleMonthChange monthIndex s) = None
   \<and> selectedMonth (handleDateRangeChange (Some a) (Some b) s) = None
   \<and> dateRange (handleDateRangeChange (Some a) (Some b) s) = Some (a, b)
   \<and> selectedMonth (handleClearFilters s) = None
   \<and> dateRange (handleClearFilters s) = None"
proof -
  have "selectedMonth s = None \<or> dateRange s = None" if "reachable s"
    using that
  proof induction
    case init
    show ?case by (simp add: initialSelection_def)
  next
    case (month s monthIndex)
    show ?case by (simp add: handleMonthChange_def)
  next
    case (range s start end')
    then show ?case
      by (auto simp: handleDateRangeChange_def split: option.splits)
  next
    case (clear s)
    show ?case
      by (simp add: handleClearFilters_def handleMonthChange_def handleDateRangeChange_def)
  qed
  then show ?thesis
    by (simp add: handleMonthChange_def handleDateRangeChange_def handleClearFilters_def)
qed

theorem selection_exclusive_witness:
  "reachable (handleMonthChange 3
      (handleDateRangeChange (Some (Some 1762945200000)) (Some (Some 1762948800000))
         initialSelection))
   \<and> (selectedMonth (handleMonthChange 3
        (handleDateRangeChange (Some (Some 1762945200000)) (Some (Some 1762948800000))
           initialSelection)) = None
      \<or> dateRange (handleMonthChange 3
        (handleDateRangeChange (Some (Some 1762945200000)) (Some (Some 1762948800000))
           initialSelection)) = None)"
proof -
  have h: "reachable (handleMonthChange 3
      (handleDateRangeChange (Some (Some 1762945200000)) (Some (Some 1762948800000))
         initialSelection))"
    by (intro reachable.month reachable.range reachable.init)
  show ?thesis
    using h selection_exclusive [of "handleMonthChange 3
      (handleDateRangeChange (Some (Some 1762945200000)) (Some (Some 1762948800000))
         initialSelection)" 0 None None]
    by simp
qed




text \<open>
  The filters on sample data. In New York, with the clock at 12 November 2025, 11:00 UTC,
  window slot 5 is November 2025, which holds the change from summer time: it runs from
  1 November 04:00 UTC to 1 December 04:59:59.999 UTC, and the lessons half an hour after
  its first midnight and half an hour before its last are kept. In Singapore, with the
  clock at 12 November 2025, 04:00 UTC, the lesson of 12 November is today's and is the
  one Available lesson of slot 5; the lesson of 28 October is the one Historic lesson of
  slot 4.
\<close>

lemma month_filter_new_york:
  "map id_lesson
     (getFilteredLessonsByType sampleNewDate newYork 1762945200000
        (storeOf [lessonAt ''A'' ''2025-11-01T04:30:00Z'', lessonAt ''B'' ''2025-11-12T11:00:00Z'',
                  lessonAt ''D'' ''2025-12-01T04:30:00Z'', lessonAt ''E'' ''2025-10-28T14:00:00Z''])
        \<lparr>selectedMonth = Some 5, dateRange = None\<rparr> (Type Upcoming))
     = [''A'', ''B'', ''D'']"
  by code_simp

lemma today_filter_sample:
  "filteredLessons sampleNewDate singapore 1762920000000 (storeOf [L001, L007]) (Some Today) None
     = [L007]"
  by code_simp

lemma month_filter_sample:
  "getFilteredLessonsByType sampleNewDate singapore 1762920000000 (storeOf [L001, L007])
     \<lparr>selectedMonth = Some 5, dateRange = None\<rparr> (Type Available) = [L007]
   \<and> getFilteredLessonsByType sampleNewDate singapore 1762920000000 (storeOf [L001, L007])
     \<lparr>selectedMonth = Some 4, dateRange = None\<rparr> (Type Available) = []
   \<and> getFilteredLessonsByType sampleNewDate singapore 1762920000000 (storeOf [L001, L007])
     \<lparr>selectedMonth = Some 4, dateRange = None\<rparr> (Type Historic) = [L001]"
  by code_simp

end
